theory Spec2Isabelle
  imports Main "HOL-Library.FSet" "HOL-Library.Char_ord" "HOL-Library.List_Lexorder"
begin

section \<open>Python values and strings\<close>

text \<open>
  A Python string is the list of the bytes of its UTF-8 text; a lone surrogate, which
  UTF-8 itself cannot hold, is the three bytes \<open>ED A0..BF 80..BF\<close> of its code. Strings
  are compared byte by byte, which orders them as Python orders their code points.

  \<open>white_space\<close> lists the characters \<open>str.strip\<close> removes, each as its bytes: the ASCII
  ones (tab, line feed, vertical tab, form feed, carriage return, 0x1C to 0x1F, the
  blank) and U+0085, U+00A0, U+1680, U+2000 to U+200A, U+2028, U+2029, U+202F, U+205F
  and U+3000.
\<close>

definition white_space :: "string list" where
  "white_space =
     [[CHR 0x09],
      [CHR 0x0A],
      [CHR 0x0B],
      [CHR 0x0C],
      [CHR 0x0D],
      [CHR 0x1C],
      [CHR 0x1D],
      [CHR 0x1E],
      [CHR 0x1F],
      [CHR 0x20],
      [CHR 0xC2, CHR 0x85],
      [CHR 0xC2, CHR 0xA0],
      [CHR 0xE1, CHR 0x9A, CHR 0x80],
      [CHR 0xE2, CHR 0x80, CHR 0x80],
      [CHR 0xE2, CHR 0x80, CHR 0x81],
      [CHR 0xE2, CHR 0x80, CHR 0x82],
      [CHR 0xE2, CHR 0x80, CHR 0x83],
      [CHR 0xE2, CHR 0x80, CHR 0x84],
      [CHR 0xE2, CHR 0x80, CHR 0x85],
      [CHR 0xE2, CHR 0x80, CHR 0x86],
      [CHR 0xE2, CHR 0x80, CHR 0x87],
      [CHR 0xE2, CHR 0x80, CHR 0x88],
      [CHR 0xE2, CHR 0x80, CHR 0x89],
      [CHR 0xE2, CHR 0x80, CHR 0x8A],
      [CHR 0xE2, CHR 0x80, CHR 0xA8],
      [CHR 0xE2, CHR 0x80, CHR 0xA9],
      [CHR 0xE2, CHR 0x80, CHR 0xAF],
      [CHR 0xE2, CHR 0x81, CHR 0x9F],
      [CHR 0xE3, CHR 0x80, CHR 0x80]]"

text \<open>Removing, from the start of a string, the characters of a list as long as one
  of them starts the string; \<open>str.strip\<close> does so at both ends.\<close>

fun drop_leading :: "string list \<Rightarrow> string \<Rightarrow> string" where
  "drop_leading ws [] = []"
| "drop_leading ws (c # s) =
     (case find (\<lambda>w. take (length w) (c # s) = w) ws of
        None \<Rightarrow> c # s
      | Some w \<Rightarrow> drop_leading ws (drop (length w - 1) s))"

definition lstrip :: "string \<Rightarrow> string" where
  "lstrip s = drop_leading white_space s"

definition rstrip :: "string \<Rightarrow> string" where
  "rstrip s = rev (drop_leading (map rev white_space) (rev s))"

definition strip :: "string \<Rightarrow> string" where
  "strip s = rstrip (lstrip s)"

text \<open>Whether a string holds a lone surrogate: such a string has no UTF-8 encoding.\<close>

fun has_surrogate :: "string \<Rightarrow> bool" where
  "has_surrogate (a # b # s) =
     ((a = CHR 0xED \<and> CHR 0xA0 \<le> b \<and> b \<le> CHR 0xBF) \<or> has_surrogate (b # s))"
| "has_surrogate s = False"

fun str_nat :: "nat \<Rightarrow> string" where
  "str_nat n = (if n < 10 then [char_of (48 + n)]
                else str_nat (n div 10) @ [char_of (48 + n mod 10)])"

declare str_nat.simps [simp del]

definition str_int :: "int \<Rightarrow> string" where
  "str_int i = (if i < 0 then CHR ''-'' # str_nat (nat (- i)) else str_nat (nat i))"

fun join :: "string \<Rightarrow> string list \<Rightarrow> string" where
  "join sep [] = []"
| "join sep [x] = x"
| "join sep (x # y # ys) = x @ sep @ join sep (y # ys)"

text \<open>
  What \<open>json.loads\<close> returns: \<open>None\<close>, a bool, a number (integers only here), a \<open>str\<close>,
  a \<open>list\<close> or a \<open>dict\<close> with string keys (an association list with distinct keys, in
  insertion order).
\<close>

datatype json =
    JNull
  | JBool bool
  | JNum int
  | JStr string
  | JArr "json list"
  | JObj "(string \<times> json) list"

text \<open>
  The exceptions: what the client raises (transport, authentication, rate limit), what
  \<open>json.loads\<close> raises, those of Python itself (\<open>UnicodeEncodeError\<close> for a string with
  a lone surrogate that is to be encoded), and those of \<open>sqlite3\<close>
  (\<open>ProgrammingError\<close> stands for the error of binding a value of an unsupported type,
  which older versions of Python raise as \<open>InterfaceError\<close>).
\<close>

datatype error =
    ClientError string
  | JSONDecodeError
  | AttributeError
  | TypeError
  | KeyError
  | OverflowError
  | UnicodeEncodeError
  | OperationalError
  | ProgrammingError
  | IntegrityError

text \<open>Truth value of an object, as \<open>if items:\<close> and \<open>x or ""\<close> test it.\<close>

fun truthy :: "json \<Rightarrow> bool" where
  "truthy JNull = False"
| "truthy (JBool b) = b"
| "truthy (JNum n) = (n \<noteq> 0)"
| "truthy (JStr s) = (s \<noteq> [])"
| "truthy (JArr xs) = (xs \<noteq> [])"
| "truthy (JObj kvs) = (kvs \<noteq> [])"

text \<open>\<open>for it in items\<close>: a list yields its elements, a dict its keys, a string its
  characters; anything else is not iterable.\<close>

fun py_iter :: "json \<Rightarrow> error + json list" where
  "py_iter (JArr xs) = Inr xs"
| "py_iter (JObj kvs) = Inr (map (\<lambda>kv. JStr (fst kv)) kvs)"
| "py_iter (JStr s) = Inr (map (\<lambda>c. JStr [c]) s)"
| "py_iter v = Inl TypeError"

text \<open>\<open>it.get(key)\<close>: only a dict has the method; a missing key gives \<open>None\<close>.\<close>

fun dict_get :: "json \<Rightarrow> string \<Rightarrow> error + json" where
  "dict_get (JObj kvs) k = Inr (case map_of kvs k of None \<Rightarrow> JNull | Some v \<Rightarrow> v)"
| "dict_get v k = Inl AttributeError"

text \<open>\<open>it[key]\<close> with a string key: a missing key of a dict raises \<open>KeyError\<close>, any other
  object raises \<open>TypeError\<close>.\<close>

fun subscript :: "json \<Rightarrow> string \<Rightarrow> error + json" where
  "subscript (JObj kvs) k = (case map_of kvs k of None \<Rightarrow> Inl KeyError | Some v \<Rightarrow> Inr v)"
| "subscript v k = Inl TypeError"

section \<open>The Item Store: table \<open>vocab\<close> of \<open>vocab.db\<close>\<close>

datatype sqlval = SNull | SInt int | SText string

record row =
  row_id :: int
  row_word :: sqlval
  row_meaning_en :: sqlval
  row_meaning_zh :: sqlval
  row_example :: sqlval
  row_topic :: sqlval
  row_tag :: sqlval
  row_difficulty :: sqlval
  row_created_at :: sqlval

text \<open>
  The table: whether it has the column \<open>difficulty\<close> (a table made by an older version
  has not), its rows in the order of their insertion, and the counter that
  \<open>AUTOINCREMENT\<close> keeps in \<open>sqlite_sequence\<close>. The store is the database file: the table,
  if there is one, and the number of connections opened so far.
\<close>

record table =
  tbl_has_difficulty :: bool
  tbl_rows :: "row list"
  tbl_seq :: int

record store =
  vocab :: "table option"
  connections :: nat

definition connect :: "store \<Rightarrow> store" where
  "connect st = st\<lparr>connections := connections st + 1\<rparr>"

subsection \<open>\<open>init_db\<close>\<close>

definition create_table_if_not_exists :: "table option \<Rightarrow> table" where
  "create_table_if_not_exists v =
     (case v of
        None \<Rightarrow> \<lparr>tbl_has_difficulty = True, tbl_rows = [], tbl_seq = 0\<rparr>
      | Some t \<Rightarrow> t)"

text \<open>\<open>ALTER TABLE vocab ADD COLUMN difficulty INTEGER\<close>: a duplicate column name is an
  \<open>OperationalError\<close>; otherwise every existing row reads \<open>NULL\<close> in the new column.\<close>

definition alter_add_difficulty :: "table \<Rightarrow> error + table" where
  "alter_add_difficulty t =
     (if tbl_has_difficulty t then Inl OperationalError
      else Inr (t\<lparr>tbl_has_difficulty := True,
                  tbl_rows := map (\<lambda>r. r\<lparr>row_difficulty := SNull\<rparr>) (tbl_rows t)\<rparr>))"

definition init_db :: "store \<Rightarrow> store \<times> error option" where
  "init_db st =
     (let conn = connect st;
          t = create_table_if_not_exists (vocab conn)
      in case alter_add_difficulty t of
           Inl e \<Rightarrow> (if e = OperationalError then (conn\<lparr>vocab := Some t\<rparr>, None)
                     else (conn, Some e))
         | Inr t' \<Rightarrow> (conn\<lparr>vocab := Some t'\<rparr>, None))"

subsection \<open>\<open>insert_vocab_items\<close>\<close>

text \<open>
  Binding a Python value to a statement parameter: an integer must fit in 64 bits, a
  string must have a UTF-8 encoding, a list or a dict cannot be bound.
\<close>

definition int64 :: "int \<Rightarrow> bool" where
  "int64 n = (- (2 ^ 63) \<le> n \<and> n < 2 ^ 63)"

definition bind_int :: "int \<Rightarrow> error + sqlval" where
  "bind_int n = (if int64 n then Inr (SInt n) else Inl OverflowError)"

definition bind_text :: "string \<Rightarrow> error + sqlval" where
  "bind_text s = (if has_surrogate s then Inl UnicodeEncodeError else Inr (SText s))"

fun bind_param :: "json \<Rightarrow> error + sqlval" where
  "bind_param JNull = Inr SNull"
| "bind_param (JBool b) = Inr (SInt (if b then 1 else 0))"
| "bind_param (JNum n) = bind_int n"
| "bind_param (JStr s) = bind_text s"
| "bind_param v = Inl ProgrammingError"

definition bind_opt_text :: "string option \<Rightarrow> error + sqlval" where
  "bind_opt_text s = (case s of None \<Rightarrow> Inr SNull | Some x \<Rightarrow> bind_text x)"

definition bind_opt_int :: "int option \<Rightarrow> error + sqlval" where
  "bind_opt_int i = (case i of None \<Rightarrow> Inr SNull | Some x \<Rightarrow> bind_int x)"

text \<open>A column declared \<open>TEXT\<close> stores an integer as its decimal text.\<close>

fun text_affinity :: "sqlval \<Rightarrow> sqlval" where
  "text_affinity (SInt i) = SText (str_int i)"
| "text_affinity v = v"

text \<open>The id \<open>AUTOINCREMENT\<close> assigns: one more than the largest id the table holds or
  has ever held.\<close>

definition next_id :: "table \<Rightarrow> int" where
  "next_id t = foldr max (map row_id (tbl_rows t)) (tbl_seq t) + 1"

text \<open>
  One \<open>c.execute("INSERT ...", (it.get("word"), ..., topic, tag, difficulty))\<close>, in two
  parts. First Python evaluates the four \<open>it.get\<close>, SQLite compiles the statement (no
  table, or no column \<open>difficulty\<close>: \<open>OperationalError\<close>) and the seven parameters are
  bound, in their order. Then the statement runs: it takes the write lock of the
  database, and \<open>word TEXT NOT NULL\<close> refuses \<open>NULL\<close> with an \<open>IntegrityError\<close>.
\<close>

record bound_params =
  b_word :: sqlval
  b_meaning_en :: sqlval
  b_meaning_zh :: sqlval
  b_example :: sqlval
  b_topic :: sqlval
  b_tag :: sqlval
  b_difficulty :: sqlval

definition bind_insert ::
  "table option \<Rightarrow> json \<Rightarrow> string option \<Rightarrow> string option \<Rightarrow> int option
     \<Rightarrow> error + table \<times> bound_params" where
  "bind_insert v it topic tag difficulty =
     (case dict_get it ''word'' of Inl e \<Rightarrow> Inl e | Inr w \<Rightarrow>
     (case dict_get it ''meaning_en'' of Inl e \<Rightarrow> Inl e | Inr me \<Rightarrow>
     (case dict_get it ''meaning_zh'' of Inl e \<Rightarrow> Inl e | Inr mz \<Rightarrow>
     (case dict_get it ''example'' of Inl e \<Rightarrow> Inl e | Inr ex \<Rightarrow>
     (case v of None \<Rightarrow> Inl OperationalError | Some t \<Rightarrow>
     (if \<not> tbl_has_difficulty t then Inl OperationalError else
     (case bind_param w of Inl e \<Rightarrow> Inl e | Inr bw \<Rightarrow>
     (case bind_param me of Inl e \<Rightarrow> Inl e | Inr bme \<Rightarrow>
     (case bind_param mz of Inl e \<Rightarrow> Inl e | Inr bmz \<Rightarrow>
     (case bind_param ex of Inl e \<Rightarrow> Inl e | Inr bex \<Rightarrow>
     (case bind_opt_text topic of Inl e \<Rightarrow> Inl e | Inr bt \<Rightarrow>
     (case bind_opt_text tag of Inl e \<Rightarrow> Inl e | Inr bg \<Rightarrow>
     (case bind_opt_int difficulty of Inl e \<Rightarrow> Inl e | Inr bd \<Rightarrow>
        Inr (t, \<lparr>b_word = bw, b_meaning_en = bme, b_meaning_zh = bmz, b_example = bex,
                 b_topic = bt, b_tag = bg, b_difficulty = bd\<rparr>))))))))))))))"

definition step_insert :: "table \<Rightarrow> string \<Rightarrow> bound_params \<Rightarrow> error + table" where
  "step_insert t now b =
     (if b_word b = SNull then Inl IntegrityError
      else Inr (t\<lparr>tbl_rows := tbl_rows t @
                    [\<lparr>row_id = next_id t,
                      row_word = text_affinity (b_word b),
                      row_meaning_en = text_affinity (b_meaning_en b),
                      row_meaning_zh = text_affinity (b_meaning_zh b),
                      row_example = text_affinity (b_example b),
                      row_topic = b_topic b,
                      row_tag = b_tag b,
                      row_difficulty = b_difficulty b,
                      row_created_at = SText now\<rparr>],
                  tbl_seq := next_id t\<rparr>))"

definition execute_insert ::
  "table option \<Rightarrow> string \<Rightarrow> json \<Rightarrow> string option \<Rightarrow> string option \<Rightarrow> int option
     \<Rightarrow> error + table" where
  "execute_insert v now it topic tag difficulty =
     (case bind_insert v it topic tag difficulty of
        Inl e \<Rightarrow> Inl e
      | Inr (t, b) \<Rightarrow> step_insert t now b)"

text \<open>The loop \<open>for it in items\<close>, inside one transaction; \<open>now k\<close> is the clock at the
  \<open>k\<close>-th statement. An exception leaves the loop with nothing committed.\<close>

fun insert_loop ::
  "table option \<Rightarrow> (nat \<Rightarrow> string) \<Rightarrow> nat \<Rightarrow> json list \<Rightarrow> string option \<Rightarrow> string option
     \<Rightarrow> int option \<Rightarrow> error + table option" where
  "insert_loop v now k [] topic tag difficulty = Inr v"
| "insert_loop v now k (it # its) topic tag difficulty =
     (case execute_insert v (now k) it topic tag difficulty of
        Inl e \<Rightarrow> Inl e
      | Inr t \<Rightarrow> insert_loop (Some t) now (Suc k) its topic tag difficulty)"

text \<open>
  The call, made while no other connection holds the write lock of the database. On
  an exception the function is left with its connection neither committed nor closed:
  nothing of the batch is stored, and the connection stays open until Python collects
  it (see \<open>insert_call\<close> below for what it does to the calls that follow).
\<close>

definition insert_vocab_items ::
  "store \<Rightarrow> (nat \<Rightarrow> string) \<Rightarrow> json \<Rightarrow> string option \<Rightarrow> string option \<Rightarrow> int option
     \<Rightarrow> store \<times> error option" where
  "insert_vocab_items st now items topic tag difficulty =
     (if \<not> truthy items then (st, None)
      else
        let conn = connect st in
        case py_iter items of
          Inl e \<Rightarrow> (conn, Some e)
        | Inr its \<Rightarrow>
            (case insert_loop (vocab conn) now 0 its topic tag difficulty of
               Inl e \<Rightarrow> (conn, Some e)
             | Inr v \<Rightarrow> (conn\<lparr>vocab := v\<rparr>, None)))"





subsection \<open>\<open>get_random_items\<close> and \<open>get_recent_items\<close>\<close>







section \<open>Generation: \<open>call_gpt_for_vocab\<close> and \<open>call_gpt_for_phrasal_verbs\<close>\<close>

definition nl :: string where
  "nl = [CHR 0x0A]"

text \<open>\<open>sorted({w.strip() for w in forbidden_words if w})\<close>\<close>

definition unique_terms :: "string list \<Rightarrow> string list" where
  "unique_terms forbidden_words = sort (remdups (map strip (filter (\<lambda>w. w \<noteq> []) forbidden_words)))"

definition vocab_block_text :: "string \<Rightarrow> string" where
  \<open>vocab_block_text joined = concat
     [nl,
      ''Important:'', nl,
      ''- Do NOT include any of these previously generated words or phrases (avoid exact matches):'', nl,
      ''  '', joined, nl,
      ''- Prefer new vocabulary rather than repeating the same items.'', nl]\<close>

definition phrasal_block_text :: "string \<Rightarrow> string" where
  \<open>phrasal_block_text joined = concat
     [nl,
      ''Important:'', nl,
      ''- Do NOT include any of these previously generated phrasal verbs (avoid exact matches):'', nl,
      ''  '', joined, nl,
      ''- Prefer new phrasal verbs rather than repeating the same items.'', nl]\<close>

text \<open>The forbidden block of both functions; \<open>render\<close> is the text around the joined terms.\<close>

definition forbidden_block_of :: "(string \<Rightarrow> string) \<Rightarrow> string list option \<Rightarrow> string" where
  "forbidden_block_of render forbidden_words =
     (case forbidden_words of
        None \<Rightarrow> []
      | Some fw \<Rightarrow>
          if fw = [] then []
          else let unique = unique_terms fw
               in if unique = [] then [] else render (join '', '' (take 200 unique)))"

definition vocab_prompt :: "string \<Rightarrow> int \<Rightarrow> int \<Rightarrow> string \<Rightarrow> int \<Rightarrow> string" where
  \<open>vocab_prompt topic num_items difficulty forbidden_block random_seed = concat
     [nl,
      ''You are an English tutor for a Chinese ESL student in the United States.'', nl,
      nl,
      ''Generate '', str_int num_items, '' daily-life English words or short phrases'', nl,
      ''for the topic "'', topic, ''", with rarity level '', str_int difficulty, '' on a 1'', [CHR 0xE2, CHR 0x80, CHR 0x93], ''5 scale:'', nl,
      nl,
      ''1 = very common, basic, used every day'', nl,
      ''2 = common but slightly more specific'', nl,
      ''3 = moderately uncommon but useful'', nl,
      ''4 = uncommon but natural in real conversations'', nl,
      ''5 = rare/advanced but practical and expressive'', nl,
      nl,
      forbidden_block, nl,
      nl,
      ''Additional instructions:'', nl,
      ''- Every time this request is called, you MUST generate a NEW and DIFFERENT'', nl,
      ''  set of vocabulary, even if the topic and difficulty are the same.'', nl,
      ''- Use the random seed below to diversify your choice.'', nl,
      ''- Avoid only the most obvious textbook examples; explore more natural daily language.'', nl,
      nl,
      ''Random seed for this generation: '', str_int random_seed, nl,
      nl,
      ''Return ONLY valid JSON in this exact format (no explanation, no markdown):'', nl,
      nl,
      ''['', nl,
      ''  {'', nl,
      ''    "word": "checkup",'', nl,
      ''    "meaning_en": "a medical examination to see if you are healthy",'', nl,
      ''    "meaning_zh": "'', [CHR 0xE4, CHR 0xBD, CHR 0x93, CHR 0xE6, CHR 0xA3, CHR 0x80, CHR 0xEF, CHR 0xBC, CHR 0x9B, CHR 0xE6, CHR 0xA3, CHR 0x80, CHR 0xE6, CHR 0x9F, CHR 0xA5, CHR 0xE8, CHR 0xBA, CHR 0xAB, CHR 0xE4, CHR 0xBD, CHR 0x93], ''",'', nl,
      ''    "example": "I scheduled a checkup with my doctor for next week."'', nl,
      ''  }'', nl,
      '']'', nl]\<close>

definition phrasal_prompt :: "int \<Rightarrow> int \<Rightarrow> string \<Rightarrow> int \<Rightarrow> string" where
  \<open>phrasal_prompt num_items difficulty forbidden_block random_seed = concat
     [nl,
      ''Generate '', str_int num_items, '' useful English phrasal verbs used in daily life,'', nl,
      ''with rarity level '', str_int difficulty, '' (1 = common/basic, 5 = rare/advanced).'', nl,
      nl,
      ''Definitions:'', nl,
      ''1 = very common and basic (used every day)'', nl,
      ''2 = common but slightly more advanced'', nl,
      ''3 = moderately uncommon but helpful for fluency'', nl,
      ''4 = uncommon but expressive, more nuanced'', nl,
      ''5 = rare, advanced but still practical phrasal verbs'', nl,
      nl,
      forbidden_block, nl,
      nl,
      ''Additional instructions:'', nl,
      ''- Every time this request is called, you MUST generate a NEW and DIFFERENT'', nl,
      ''  set of phrasal verbs, even with the same difficulty level.'', nl,
      ''- Use the random seed below to diversify your choice.'', nl,
      ''- Avoid only textbook-style examples; focus on natural spoken English.'', nl,
      nl,
      ''Random seed for this generation: '', str_int random_seed, nl,
      nl,
      ''Return ONLY valid JSON in this exact format (no explanation, no markdown):'', nl,
      nl,
      ''['', nl,
      ''  {'', nl,
      ''    "word": "dress up",'', nl,
      ''    "meaning_en": "to put on nice or formal clothes",'', nl,
      ''    "meaning_zh": "'', [CHR 0xE7, CHR 0x9B, CHR 0x9B, CHR 0xE8, CHR 0xA3, CHR 0x85, CHR 0xE6, CHR 0x89, CHR 0x93, CHR 0xE6, CHR 0x89, CHR 0xAE], ''",'', nl,
      ''    "example": "We have to dress up for the wedding this weekend."'', nl,
      ''  }'', nl,
      '']'', nl]\<close>

text \<open>
  The request of \<open>client.chat.completions.create\<close>: the model, the one user message and
  the temperature (in tenths). The client is the world outside: it answers a request
  with an exception, or with the \<open>content\<close> of the first choice (\<open>None\<close> when the
  message has none). \<open>json.loads\<close> is the library's decoder, taken as it is.
\<close>

record request =
  req_model :: string
  req_content :: string
  req_temperature :: nat

type_synonym chat_client = "request \<Rightarrow> error + string option"
type_synonym decoder = "string \<Rightarrow> error + json"

text \<open>\<open>resp.choices[0].message.content.strip()\<close> and \<open>json.loads(content)\<close>\<close>

definition read_response :: "decoder \<Rightarrow> error + string option \<Rightarrow> error + json" where
  "read_response loads resp =
     (case resp of
        Inl e \<Rightarrow> Inl e
      | Inr None \<Rightarrow> Inl AttributeError
      | Inr (Some content) \<Rightarrow> loads (strip content))"

text \<open>Both functions return the requests they sent and what they return or raise;
  \<open>random_seed\<close> is the number \<open>random.randint(1, 1_000_000)\<close> drew. The request is
  built from the arguments as they are.\<close>

definition vocab_request :: "int \<Rightarrow> string \<Rightarrow> int \<Rightarrow> int \<Rightarrow> string list option \<Rightarrow> request" where
  "vocab_request random_seed topic num_items difficulty forbidden_words =
     (let forbidden_block = forbidden_block_of vocab_block_text forbidden_words;
          prompt = vocab_prompt topic num_items difficulty forbidden_block random_seed
      in \<lparr>req_model = ''gpt-4.1'', req_content = prompt, req_temperature = 8\<rparr>)"

definition call_gpt_for_vocab ::
  "chat_client \<Rightarrow> decoder \<Rightarrow> int \<Rightarrow> string \<Rightarrow> int \<Rightarrow> int \<Rightarrow> string list option
     \<Rightarrow> request list \<times> (error + json)" where
  "call_gpt_for_vocab client loads random_seed topic num_items difficulty forbidden_words =
     (let req = vocab_request random_seed topic num_items difficulty forbidden_words
      in ([req], read_response loads (client req)))"

definition phrasal_request :: "int \<Rightarrow> int \<Rightarrow> int \<Rightarrow> string list option \<Rightarrow> request" where
  "phrasal_request random_seed num_items difficulty forbidden_words =
     (let forbidden_block = forbidden_block_of phrasal_block_text forbidden_words;
          prompt = phrasal_prompt num_items difficulty forbidden_block random_seed
      in \<lparr>req_model = ''gpt-4.1'', req_content = prompt, req_temperature = 7\<rparr>)"

definition call_gpt_for_phrasal_verbs ::
  "chat_client \<Rightarrow> decoder \<Rightarrow> int \<Rightarrow> int \<Rightarrow> int \<Rightarrow> string list option
     \<Rightarrow> request list \<times> (error + json)" where
  "call_gpt_for_phrasal_verbs client loads random_seed num_items difficulty forbidden_words =
     (let req = phrasal_request random_seed num_items difficulty forbidden_words
      in ([req], read_response loads (client req)))"

section \<open>The pages: session state and generation history\<close>

text \<open>
  The fields of \<open>st.session_state\<close> the two generation pages use; \<open>None\<close> is a key not
  set yet. A history maps a context (the normalized topic, or the difficulty) to the
  set of words generated for it.
\<close>

record session =
  vocab_history :: "(string \<rightharpoonup> string fset) option"
  phrasal_history :: "(int \<rightharpoonup> string fset) option"
  last_vocab_items :: "json option"
  last_vocab_topic :: "string option"
  last_vocab_difficulty :: "int option"
  last_phrasal_items :: "json option"
  last_phrasal_difficulty :: "int option"

text \<open>\<open>st.session_state.setdefault(key, {})\<close>\<close>

definition setdefault_history :: "('k \<rightharpoonup> string fset) option \<Rightarrow> ('k \<rightharpoonup> string fset)" where
  "setdefault_history h = (case h of None \<Rightarrow> Map.empty | Some m \<Rightarrow> m)"

text \<open>\<open>history.get(ctx, set())\<close> and \<open>sorted(history.get(ctx, set()))\<close>\<close>

definition history_get :: "('k \<rightharpoonup> string fset) \<Rightarrow> 'k \<Rightarrow> string fset" where
  "history_get history ctx = (case history ctx of None \<Rightarrow> {||} | Some h \<Rightarrow> h)"

definition get_forbidden :: "('k \<rightharpoonup> string fset) \<Rightarrow> 'k \<Rightarrow> string list" where
  "get_forbidden history ctx = sorted_list_of_fset (history_get history ctx)"

text \<open>The two lines before the button, on both pages: the history of the session (set to
  an empty dict when the key is new) and the sorted forbidden words of the context.\<close>

definition read_forbidden ::
  "('k \<rightharpoonup> string fset) option \<Rightarrow> 'k \<Rightarrow> ('k \<rightharpoonup> string fset) \<times> string list" where
  "read_forbidden h ctx =
     (let history = setdefault_history h in (history, get_forbidden history ctx))"

text \<open>
  \<open>(it.get("word") or "").strip().lower()\<close>: only a string has \<open>strip\<close>. \<open>str.lower\<close>
  follows the tables of Unicode; it is taken as it is, as the function \<open>lower\<close>.
\<close>

definition item_word :: "(string \<Rightarrow> string) \<Rightarrow> json \<Rightarrow> error + string" where
  "item_word lower it =
     (case dict_get it ''word'' of
        Inl e \<Rightarrow> Inl e
      | Inr v \<Rightarrow>
          (case (if truthy v then v else JStr []) of
             JStr s \<Rightarrow> Inr (lower (strip s))
           | _ \<Rightarrow> Inl AttributeError))"

text \<open>The loop over the items: the set as it is when the loop ends, and the exception
  that ended it, if one did.\<close>

fun add_words ::
  "(string \<Rightarrow> string) \<Rightarrow> string fset \<Rightarrow> json list \<Rightarrow> string fset \<times> error option" where
  "add_words lower hist_set [] = (hist_set, None)"
| "add_words lower hist_set (it # its) =
     (case item_word lower it of
        Inl e \<Rightarrow> (hist_set, Some e)
      | Inr w \<Rightarrow> add_words lower (if w \<noteq> [] then finsert w hist_set else hist_set) its)"

text \<open>
  The update of the history after a round. \<open>hist_set\<close> is the set the history holds for
  the context, when it holds one: the loop then changes that set in place, also when an
  exception ends it. A new set reaches the history with the assignment after the loop.
\<close>

definition absorb ::
  "(string \<Rightarrow> string) \<Rightarrow> ('k \<rightharpoonup> string fset) \<Rightarrow> 'k \<Rightarrow> json
     \<Rightarrow> ('k \<rightharpoonup> string fset) \<times> error option" where
  "absorb lower history ctx items =
     (case py_iter items of
        Inl e \<Rightarrow> (history, Some e)
      | Inr its \<Rightarrow>
          (case add_words lower (history_get history ctx) its of
             (hist_set, Some e) \<Rightarrow>
               (if history ctx = None then history else history(ctx \<mapsto> hist_set), Some e)
           | (hist_set, None) \<Rightarrow> (history(ctx \<mapsto> hist_set), None)))"

text \<open>
  What the page needs from outside: whether \<open>OPENAI_API_KEY\<close> is set, the client, the
  decoder, \<open>str.lower\<close>, the seed drawn, and the clock of the database.
\<close>

record env =
  env_api_key :: bool
  env_lower :: "string \<Rightarrow> string"
  env_client :: chat_client
  env_loads :: decoder
  env_seed :: int
  env_now :: "nat \<Rightarrow> string"

text \<open>The button pressed in a run of the page, if any; \<open>ClickAdd i\<close> is the button of
  the \<open>i\<close>-th item shown.\<close>

datatype click = NoClick | ClickGenerate | ClickSaveAll | ClickAdd nat

text \<open>
  The loop that shows the items, \<open>i\<close> counting from 1: the four fields are read with
  \<open>it[...]\<close>, and the button of the item inserts it alone.
\<close>

fun show_items ::
  "env \<Rightarrow> click \<Rightarrow> string \<Rightarrow> string \<Rightarrow> int \<Rightarrow> nat \<Rightarrow> json list \<Rightarrow> store \<Rightarrow> store \<times> error option" where
  "show_items env clicked topic tag difficulty i [] st = (st, None)"
| "show_items env clicked topic tag difficulty i (it # its) st =
     (case subscript it ''word'' of Inl e \<Rightarrow> (st, Some e) | Inr w \<Rightarrow>
     (case subscript it ''meaning_en'' of Inl e \<Rightarrow> (st, Some e) | Inr me \<Rightarrow>
     (case subscript it ''meaning_zh'' of Inl e \<Rightarrow> (st, Some e) | Inr mz \<Rightarrow>
     (case subscript it ''example'' of Inl e \<Rightarrow> (st, Some e) | Inr ex \<Rightarrow>
     (if clicked = ClickAdd i then
        (case insert_vocab_items st (env_now env) (JArr [it]) (Some topic) (Some tag) (Some difficulty) of
           (st', Some e) \<Rightarrow> (st', Some e)
         | (st', None) \<Rightarrow> show_items env clicked topic tag difficulty (Suc i) its st')
      else show_items env clicked topic tag difficulty (Suc i) its st)))))"

text \<open>The second half of both pages: the last batch is shown, with its buttons.
  \<open>len(items)\<close> and the loop need a list, a dict or a string.\<close>

definition show_batch ::
  "env \<Rightarrow> click \<Rightarrow> json option \<Rightarrow> string \<Rightarrow> string \<Rightarrow> int \<Rightarrow> store \<Rightarrow> store \<times> error option" where
  "show_batch env clicked last_items topic tag difficulty st =
     (case last_items of
        None \<Rightarrow> (st, None)
      | Some items \<Rightarrow>
          if \<not> truthy items then (st, None)
          else
            (case py_iter items of
               Inl e \<Rightarrow> (st, Some e)
             | Inr its \<Rightarrow>
                 (case show_items env clicked topic tag difficulty 1 its st of
                    (st', Some e) \<Rightarrow> (st', Some e)
                  | (st', None) \<Rightarrow>
                      if clicked = ClickSaveAll
                      then insert_vocab_items st' (env_now env) items (Some topic) (Some tag) (Some difficulty)
                      else (st', None))))"

definition option_or :: "'a option \<Rightarrow> 'a \<Rightarrow> 'a" where
  "option_or x d = (case x of None \<Rightarrow> d | Some v \<Rightarrow> v)"

subsection \<open>\<open>page_generate_vocab\<close>\<close>

definition page_generate_vocab ::
  "env \<Rightarrow> click \<Rightarrow> string \<Rightarrow> int \<Rightarrow> int \<Rightarrow> session \<times> store \<Rightarrow> (session \<times> store) \<times> error option" where
  "page_generate_vocab env clicked topic num_items difficulty world =
     (let sess0 = fst world; st = snd world;
          normalized_topic = env_lower env (strip topic);
          history = fst (read_forbidden (vocab_history sess0) normalized_topic);
          forbidden_words = snd (read_forbidden (vocab_history sess0) normalized_topic);
          sess = sess0\<lparr>vocab_history := Some history\<rparr>;
          show = (\<lambda>s. case show_batch env clicked (last_vocab_items s)
                               (option_or (last_vocab_topic s) topic)
                               (''daily_vocab_'' @ str_int (option_or (last_vocab_difficulty s) difficulty))
                               (option_or (last_vocab_difficulty s) difficulty) st of
                         (st', err) \<Rightarrow> ((s, st'), err))
      in if clicked = ClickGenerate then
           (if \<not> env_api_key env then ((sess, st), None)
            else
              case snd (call_gpt_for_vocab (env_client env) (env_loads env) (env_seed env)
                          topic num_items difficulty (Some forbidden_words)) of
                Inl e \<Rightarrow> ((sess, st), None)
              | Inr items \<Rightarrow>
                  (let sess1 = sess\<lparr>last_vocab_items := Some items,
                                    last_vocab_topic := Some topic,
                                    last_vocab_difficulty := Some difficulty\<rparr>
                   in case absorb (env_lower env) history normalized_topic items of
                        (history', Some e) \<Rightarrow> ((sess1\<lparr>vocab_history := Some history'\<rparr>, st), Some e)
                      | (history', None) \<Rightarrow> show (sess1\<lparr>vocab_history := Some history'\<rparr>)))
         else show sess)"

subsection \<open>\<open>page_generate_phrasal_verbs\<close>\<close>

definition page_generate_phrasal_verbs ::
  "env \<Rightarrow> click \<Rightarrow> int \<Rightarrow> int \<Rightarrow> session \<times> store \<Rightarrow> (session \<times> store) \<times> error option" where
  "page_generate_phrasal_verbs env clicked num_items difficulty world =
     (let sess0 = fst world; st = snd world;
          history = fst (read_forbidden (phrasal_history sess0) difficulty);
          forbidden_words = snd (read_forbidden (phrasal_history sess0) difficulty);
          sess = sess0\<lparr>phrasal_history := Some history\<rparr>;
          show = (\<lambda>s. case show_batch env clicked (last_phrasal_items s)
                               ''phrasal_verbs''
                               (''phrasal_'' @ str_int (option_or (last_phrasal_difficulty s) difficulty))
                               (option_or (last_phrasal_difficulty s) difficulty) st of
                         (st', err) \<Rightarrow> ((s, st'), err))
      in if clicked = ClickGenerate then
           (if \<not> env_api_key env then ((sess, st), None)
            else
              case snd (call_gpt_for_phrasal_verbs (env_client env) (env_loads env) (env_seed env)
                          num_items difficulty (Some forbidden_words)) of
                Inl e \<Rightarrow> ((sess, st), None)
              | Inr items \<Rightarrow>
                  (let sess1 = sess\<lparr>last_phrasal_items := Some items,
                                    last_phrasal_difficulty := Some difficulty\<rparr>
                   in case absorb (env_lower env) history difficulty items of
                        (history', Some e) \<Rightarrow> ((sess1\<lparr>phrasal_history := Some history'\<rparr>, st), Some e)
                      | (history', None) \<Rightarrow> show (sess1\<lparr>phrasal_history := Some history'\<rparr>)))
         else show sess)"

section \<open>Notions used in the properties\<close>

text \<open>The columns a table has before \<open>difficulty\<close> is added.\<close>

definition legacy_columns ::
  "row \<Rightarrow> int \<times> sqlval \<times> sqlval \<times> sqlval \<times> sqlval \<times> sqlval \<times> sqlval \<times> sqlval" where
  "legacy_columns r = (row_id r, row_word r, row_meaning_en r, row_meaning_zh r, row_example r,
                       row_topic r, row_tag r, row_created_at r)"

text \<open>A database written by an older version: one row, no column \<open>difficulty\<close>.\<close>

definition legacy_table :: table where
  "legacy_table =
     \<lparr>tbl_has_difficulty = False,
      tbl_rows = [\<lparr>row_id = 1, row_word = SText ''checkup'', row_meaning_en = SText ''exam'',
                   row_meaning_zh = SNull, row_example = SNull, row_topic = SText ''doctor visit'',
                   row_tag = SNull, row_difficulty = SNull,
                   row_created_at = SText ''2024-01-01 10:00:00''\<rparr>],
      tbl_seq = 1\<rparr>"

definition legacy_store :: store where
  "legacy_store = \<lparr>vocab = Some legacy_table, connections = 0\<rparr>"







definition open_table :: table where
  "open_table =
     \<lparr>tbl_has_difficulty = True,
      tbl_rows = [\<lparr>row_id = 1, row_word = SText ''fever'', row_meaning_en = SText ''high temperature'',
                   row_meaning_zh = SNull, row_example = SNull, row_topic = SText ''doctor visit'',
                   row_tag = SText ''daily_vocab_3'', row_difficulty = SInt 3,
                   row_created_at = SText ''2024-01-01 10:00:00''\<rparr>],
      tbl_seq = 1\<rparr>"

definition open_store :: store where
  "open_store = \<lparr>vocab = Some open_table, connections = 1\<rparr>"










definition sample_clock :: "nat \<Rightarrow> string" where
  "sample_clock k = ''2024-01-02 09:00:00''"






text \<open>
  The shape the specification asks of a parsed response: an array whose elements are
  all objects with a key \<open>word\<close>.
\<close>

definition well_formed_items :: "json \<Rightarrow> bool" where
  "well_formed_items v =
     (case v of
        JArr xs \<Rightarrow> list_all (\<lambda>x. case x of JObj kvs \<Rightarrow> map_of kvs ''word'' \<noteq> None | _ \<Rightarrow> False) xs
      | _ \<Rightarrow> False)"

text \<open>
  Examples of the world outside. \<open>loads_on_samples\<close> decodes the three texts it knows to
  the values \<open>json.loads\<close> gives for them and rejects every other text; it is applied
  below to these texts and to \<open>not json\<close> only, which \<open>json.loads\<close> rejects as well.
  Each client answers every request with one fixed text. \<open>lower_ascii\<close> is \<open>str.lower\<close>
  on ASCII text, and is applied to such text only.
\<close>

definition loads_on_samples :: decoder where
  \<open>loads_on_samples s =
     (if s = ''[]'' then Inr (JArr [])
      else if s = ''["a"]'' then Inr (JArr [JStr ''a''])
      else if s = ''[{"meaning_en": "x"}]'' then Inr (JArr [JObj [(''meaning_en'', JStr ''x'')]])
      else Inl JSONDecodeError)\<close>


definition client_bare_string :: chat_client where
  \<open>client_bare_string req = Inr (Some ''["a"]'')\<close>

definition client_no_word :: chat_client where
  \<open>client_no_word req = Inr (Some ''[{"meaning_en": "x"}]'')\<close>

definition client_not_json :: chat_client where
  "client_not_json req = Inr (Some ''not json'')"

definition lower_ascii :: "string \<Rightarrow> string" where
  "lower_ascii s =
     map (\<lambda>c. if CHR ''A'' \<le> c \<and> c \<le> CHR ''Z'' then char_of (of_char c + (32::nat)) else c) s"

text \<open>A forbidden list with a repeated entry, not sorted, and with an entry between
  no-break spaces.\<close>

definition sample_forbidden :: "string list" where
  "sample_forbidden =
     [''nurse'', ''checkup'', [CHR 0xC2, CHR 0xA0] @ ''nurse'' @ [CHR 0xC2, CHR 0xA0], ''fever'']"

text \<open>The forbidden set of a context, as the session holds it.\<close>

definition forbidden_set :: "('k \<rightharpoonup> string fset) option \<Rightarrow> 'k \<Rightarrow> string fset" where
  "forbidden_set h ctx = history_get (setdefault_history h) ctx"

text \<open>
  An item whose word the update of the history can read: a dict whose word is absent,
  false (\<open>None\<close>, \<open>False\<close>, 0, an empty string, list or dict) or a string.
\<close>

definition readable_word :: "json \<Rightarrow> bool" where
  "readable_word it =
     (case it of
        JObj kvs \<Rightarrow>
          (case map_of kvs ''word'' of
             None \<Rightarrow> True
           | Some v \<Rightarrow> \<not> truthy v \<or> (case v of JStr s \<Rightarrow> True | _ \<Rightarrow> False))
      | _ \<Rightarrow> False)"

text \<open>A batch of three items, the second without a word; a session that has generated
  \<open>fever\<close> for the topic \<open>doctor visit\<close> and one phrasal verb at difficulty 2; a world
  whose model answers with text that is not JSON.\<close>

definition sample_batch :: "json list" where
  "sample_batch =
     [JObj [(''word'', JStr ''  Checkup ''), (''meaning_en'', JStr ''a medical examination'')],
      JObj [(''meaning_en'', JStr ''no word here'')],
      JObj [(''word'', JStr ''Nurse'')]]"

definition sample_session :: session where
  "sample_session =
     \<lparr>vocab_history = Some [''doctor visit'' \<mapsto> {|''fever''|}],
      phrasal_history = Some [2 \<mapsto> {|''give up''|}],
      last_vocab_items = None, last_vocab_topic = None, last_vocab_difficulty = None,
      last_phrasal_items = None, last_phrasal_difficulty = None\<rparr>"

definition failing_env :: env where
  "failing_env =
     \<lparr>env_api_key = True, env_lower = lower_ascii, env_client = client_not_json,
      env_loads = loads_on_samples, env_seed = 42, env_now = sample_clock\<rparr>"

text \<open>A world whose model answers with an array of a bare string and an item: the
  decoder knows this text and the value \<open>json.loads\<close> gives for it.\<close>

definition mixed_batch :: "json list" where
  "mixed_batch = [JStr ''x'', JObj [(''word'', JStr ''nurse'')]]"

definition client_mixed :: chat_client where
  \<open>client_mixed req = Inr (Some ''["x", {"word": "nurse"}]'')\<close>

definition loads_mixed :: decoder where
  \<open>loads_mixed s =
     (if s = ''["x", {"word": "nurse"}]'' then Inr (JArr mixed_batch) else Inl JSONDecodeError)\<close>

definition mixed_env :: env where
  "mixed_env =
     \<lparr>env_api_key = True, env_lower = lower_ascii, env_client = client_mixed,
      env_loads = loads_mixed, env_seed = 42, env_now = sample_clock\<rparr>"




section \<open>Properties\<close>

subsection \<open>The Item Store\<close>

lemma legacy_columns_difficulty [simp]:
  "legacy_columns (r\<lparr>row_difficulty := v\<rparr>) = legacy_columns r"
  by (simp add: legacy_columns_def)

text \<open>
  C10. Inserting an empty list of items does nothing: the function returns at once, the
  store is returned as it was, its count of opened connections included, and no
  exception is raised. This holds for every store, also one with no table, where any
  statement would fail.
\<close>

theorem insert_empty_batch_noop:
  "insert_vocab_items st now (JArr []) topic tag difficulty = (st, None)"
  by (simp add: insert_vocab_items_def)

theorem insert_empty_batch_noop_witness:
  "insert_vocab_items \<lparr>vocab = None, connections = 0\<rparr> (\<lambda>k. []) (JArr []) None None None
     = (\<lparr>vocab = None, connections = 0\<rparr>, None)"
  using insert_empty_batch_noop [of "\<lparr>vocab = None, connections = 0\<rparr>" "\<lambda>k. []" None None None]
  by simp

text \<open>
  C8. \<open>init_db\<close> run twice in a row, first on a database whose table lacks the column
  \<open>difficulty\<close>: neither run raises, the second run leaves the table as the first made
  it, and the first keeps every row, in order, with all its old columns (and the
  \<open>AUTOINCREMENT\<close> counter); the table then has the column.
\<close>

theorem init_db_twice_on_legacy_table:
  assumes "vocab st = Some t" and "\<not> tbl_has_difficulty t"
  shows "snd (init_db st) = None \<and>
         snd (init_db (fst (init_db st))) = None \<and>
         vocab (fst (init_db (fst (init_db st)))) = vocab (fst (init_db st)) \<and>
         (\<exists>t'. vocab (fst (init_db st)) = Some t' \<and> tbl_has_difficulty t' \<and>
               map legacy_columns (tbl_rows t') = map legacy_columns (tbl_rows t) \<and>
               tbl_seq t' = tbl_seq t)"
  using assms
  by (simp add: init_db_def connect_def create_table_if_not_exists_def alter_add_difficulty_def
        Let_def comp_def)

theorem init_db_twice_on_legacy_table_witness:
  "vocab legacy_store = Some legacy_table \<and> \<not> tbl_has_difficulty legacy_table \<and>
   snd (init_db legacy_store) = None \<and>
   snd (init_db (fst (init_db legacy_store))) = None \<and>
   vocab (fst (init_db (fst (init_db legacy_store)))) = vocab (fst (init_db legacy_store)) \<and>
   (\<exists>t'. vocab (fst (init_db legacy_store)) = Some t' \<and> tbl_has_difficulty t' \<and>
         map legacy_columns (tbl_rows t') = map legacy_columns (tbl_rows legacy_table) \<and>
         tbl_seq t' = tbl_seq legacy_table)"
proof -
  have h1: "vocab legacy_store = Some legacy_table"
    by (simp add: legacy_store_def)
  have h2: "\<not> tbl_has_difficulty legacy_table"
    by (simp add: legacy_table_def)
  from init_db_twice_on_legacy_table [OF h1 h2] h1 h2 show ?thesis
    by simp
qed






































subsection \<open>Generation\<close>




text \<open>
  C3. The parse is \<open>json.loads\<close> on the stripped text of the response, and nothing
  checks the shape of what it gives: the call returns a value exactly when the client
  answers with a text that \<open>json.loads\<close> decodes, and then that value, whatever it is;
  it raises exactly what the client or \<open>json.loads\<close> raises (an answer without text has
  no \<open>strip\<close>). An array with a bare string, and an array whose element has no \<open>word\<close>,
  are returned as they are.
\<close>

theorem parse_returns_decoded_value:
  "(snd (call_gpt_for_vocab client loads seed topic num_items difficulty fw) = Inr v \<longleftrightarrow>
      (\<exists>content. client (vocab_request seed topic num_items difficulty fw) = Inr (Some content) \<and>
                 loads (strip content) = Inr v)) \<and>
   (snd (call_gpt_for_vocab client loads seed topic num_items difficulty fw) = Inl e \<longleftrightarrow>
      client (vocab_request seed topic num_items difficulty fw) = Inl e \<or>
      (client (vocab_request seed topic num_items difficulty fw) = Inr None \<and> e = AttributeError) \<or>
      (\<exists>content. client (vocab_request seed topic num_items difficulty fw) = Inr (Some content) \<and>
                 loads (strip content) = Inl e)) \<and>
   (snd (call_gpt_for_phrasal_verbs client loads seed num_items difficulty fw) = Inr v \<longleftrightarrow>
      (\<exists>content. client (phrasal_request seed num_items difficulty fw) = Inr (Some content) \<and>
                 loads (strip content) = Inr v)) \<and>
   (snd (call_gpt_for_phrasal_verbs client loads seed num_items difficulty fw) = Inl e \<longleftrightarrow>
      client (phrasal_request seed num_items difficulty fw) = Inl e \<or>
      (client (phrasal_request seed num_items difficulty fw) = Inr None \<and> e = AttributeError) \<or>
      (\<exists>content. client (phrasal_request seed num_items difficulty fw) = Inr (Some content) \<and>
                 loads (strip content) = Inl e))"
  by (auto simp: call_gpt_for_vocab_def call_gpt_for_phrasal_verbs_def Let_def read_response_def
        split: sum.splits option.splits)

theorem parse_returns_decoded_value_witness:
  \<open>snd (call_gpt_for_vocab client_no_word loads_on_samples 42 ''doctor visit'' 12 2 None)
     = Inr (JArr [JObj [(''meaning_en'', JStr ''x'')]]) \<and>
   snd (call_gpt_for_phrasal_verbs client_not_json loads_on_samples 42 10 2 None)
     = Inl JSONDecodeError\<close>
proof -
  have a: \<open>\<exists>content. client_no_word (vocab_request 42 ''doctor visit'' 12 2 None) = Inr (Some content) \<and>
             loads_on_samples (strip content) = Inr (JArr [JObj [(''meaning_en'', JStr ''x'')]])\<close>
    by (simp add: client_no_word_def loads_on_samples_def strip_def lstrip_def rstrip_def white_space_def)
  have b: "\<exists>content. client_not_json (phrasal_request 42 10 2 None) = Inr (Some content) \<and>
             loads_on_samples (strip content) = Inl JSONDecodeError"
    by (simp add: client_not_json_def loads_on_samples_def strip_def lstrip_def rstrip_def white_space_def)
  have c: \<open>snd (call_gpt_for_vocab client_no_word loads_on_samples 42 ''doctor visit'' 12 2 None)
             = Inr (JArr [JObj [(''meaning_en'', JStr ''x'')]])\<close>
    using a parse_returns_decoded_value
            [where client = client_no_word and loads = loads_on_samples and seed = 42
               and topic = "''doctor visit''" and num_items = 12 and difficulty = 2 and fw = None
               and v = "JArr [JObj [(''meaning_en'', JStr ''x'')]]"]
    by (simp only:)
  have d: "snd (call_gpt_for_phrasal_verbs client_not_json loads_on_samples 42 10 2 None)
             = Inl JSONDecodeError"
    using b parse_returns_decoded_value
            [where client = client_not_json and loads = loads_on_samples and seed = 42
               and num_items = 10 and difficulty = 2 and fw = None and e = JSONDecodeError]
    by simp
  show ?thesis
    by (intro conjI) (rule c, rule d)
qed

theorem malformed_items_counterexample:
  \<open>snd (call_gpt_for_vocab client_bare_string loads_on_samples 42 ''doctor visit'' 12 2 None)
     = Inr (JArr [JStr ''a'']) \<and>
   \<not> well_formed_items (JArr [JStr ''a'']) \<and>
   snd (call_gpt_for_phrasal_verbs client_no_word loads_on_samples 42 10 2 None)
     = Inr (JArr [JObj [(''meaning_en'', JStr ''x'')]]) \<and>
   \<not> well_formed_items (JArr [JObj [(''meaning_en'', JStr ''x'')]])\<close>
  by (simp add: call_gpt_for_vocab_def call_gpt_for_phrasal_verbs_def Let_def read_response_def
        client_bare_string_def client_no_word_def loads_on_samples_def strip_def lstrip_def rstrip_def white_space_def
        well_formed_items_def)

lemma unique_terms_sorted_list:
  "unique_terms fw = sorted_list_of_set (strip ` {w \<in> set fw. w \<noteq> []})"
proof -
  have "strip ` {w \<in> set fw. w \<noteq> []} = set (map strip (filter (\<lambda>w. w \<noteq> []) fw))"
    by auto
  then show ?thesis
    by (simp only: unique_terms_def sorted_list_of_set_sort_remdups)
qed

lemma unique_terms_sorted: "sorted (unique_terms fw)"
  by (simp add: unique_terms_def)

lemma unique_terms_distinct: "distinct (unique_terms fw)"
  by (simp add: unique_terms_def)

lemma stripped_image:
  assumes "\<forall>w\<in>set fw. w \<noteq> [] \<and> strip w = w"
  shows "strip ` {w \<in> set fw. w \<noteq> []} = set fw"
  using assms by force

lemma join_contains:
  "t \<in> set ts \<Longrightarrow> \<exists>a b. join sep ts = a @ t @ b"
proof (induction sep ts rule: join.induct)
  case (1 sep)
  then show ?case by simp
next
  case (2 sep x)
  then have "join sep [x] = [] @ t @ []" by simp
  then show ?case by blast
next
  case (3 sep x y ys)
  show ?case
  proof (cases "t = x")
    case True
    then have "join sep (x # y # ys) = [] @ t @ (sep @ join sep (y # ys))" by simp
    then show ?thesis by blast
  next
    case False
    with "3.prems" have "t \<in> set (y # ys)" by simp
    from "3.IH" [OF this] obtain a b where "join sep (y # ys) = a @ t @ b" by blast
    then have "join sep (x # y # ys) = (x @ sep @ a) @ t @ b" by simp
    then show ?thesis by blast
  qed
qed

lemma part_later:
  "\<exists>b a. s = b @ x1 @ x2 @ x3 @ x4 @ x5 @ x6 @ a
     \<Longrightarrow> \<exists>b a. p @ s = b @ x1 @ x2 @ x3 @ x4 @ x5 @ x6 @ a"
  by (metis append.assoc)

lemma part_here:
  "\<exists>b a. x1 @ x2 @ x3 @ x4 @ x5 @ x6 @ s = b @ x1 @ x2 @ x3 @ x4 @ x5 @ x6 @ a"
  by (metis append_Nil)

lemma vocab_prompt_clause:
  "\<exists>before after. vocab_prompt topic num_items difficulty (vocab_block_text joined) seed
     = before @ (''- Do NOT include any of these previously generated words or phrases (avoid exact matches):''
           @ [CHR 0x0A] @ ''  '' @ joined @ [CHR 0x0A]
           @ ''- Prefer new vocabulary rather than repeating the same items.'') @ after"
  unfolding vocab_prompt_def vocab_block_text_def nl_def
  apply (simp only: concat.simps append_assoc append_Nil2)
  apply (rule part_here | rule part_later)+
  done

lemma phrasal_prompt_clause:
  "\<exists>before after. phrasal_prompt num_items difficulty (phrasal_block_text joined) seed
     = before @ (''- Do NOT include any of these previously generated phrasal verbs (avoid exact matches):''
           @ [CHR 0x0A] @ ''  '' @ joined @ [CHR 0x0A]
           @ ''- Prefer new phrasal verbs rather than repeating the same items.'') @ after"
  unfolding phrasal_prompt_def phrasal_block_text_def nl_def
  apply (simp only: concat.simps append_assoc append_Nil2)
  apply (rule part_here | rule part_later)+
  done

text \<open>
  C7. For a forbidden list that is not empty, both generation functions take as terms
  the first 200 of the sorted list of the distinct entries (empty strings dropped, white
  space around an entry stripped). When a term remains, the text of the request holds
  the do-not-reuse clause, with the terms joined by commas in it, so that every term
  stands in the clause; when none remains, the request is the one of a call with no
  forbidden list. No entry's case is changed: for entries that are not empty and carry
  no outer white space, as those of the history are, the terms are the first 200 of the
  sorted distinct entries themselves.
\<close>

theorem forbidden_clause_rendering:
  assumes "fw \<noteq> []"
  shows "\<exists>terms. terms = take 200 (sorted_list_of_set (strip ` {w \<in> set fw. w \<noteq> []})) \<and>
           sorted terms \<and> distinct terms \<and> length terms \<le> 200 \<and>
           (terms \<noteq> [] \<longrightarrow>
              (\<exists>before after.
                  req_content (vocab_request seed topic num_items difficulty (Some fw))
                    = before @ (''- Do NOT include any of these previously generated words or phrases (avoid exact matches):''
                         @ [CHR 0x0A] @ ''  '' @ join '', '' terms @ [CHR 0x0A]
                         @ ''- Prefer new vocabulary rather than repeating the same items.'') @ after) \<and>
              (\<exists>before after.
                  req_content (phrasal_request seed num_items difficulty (Some fw))
                    = before @ (''- Do NOT include any of these previously generated phrasal verbs (avoid exact matches):''
                         @ [CHR 0x0A] @ ''  '' @ join '', '' terms @ [CHR 0x0A]
                         @ ''- Prefer new phrasal verbs rather than repeating the same items.'') @ after)) \<and>
           (terms = [] \<longrightarrow>
              req_content (vocab_request seed topic num_items difficulty (Some fw))
                = req_content (vocab_request seed topic num_items difficulty None) \<and>
              req_content (phrasal_request seed num_items difficulty (Some fw))
                = req_content (phrasal_request seed num_items difficulty None)) \<and>
           (\<forall>t\<in>set terms. \<exists>a b. join '', '' terms = a @ t @ b) \<and>
           ((\<forall>w\<in>set fw. w \<noteq> [] \<and> strip w = w) \<longrightarrow>
              terms = take 200 (sorted_list_of_set (set fw)))"
proof -
  let ?terms = "take 200 (unique_terms fw)"
  have nil: "?terms = [] \<longleftrightarrow> unique_terms fw = []"
    by simp
  have block: "forbidden_block_of render (Some fw)
                 = (if ?terms = [] then [] else render (join '', '' ?terms))" for render
    using assms by (simp add: forbidden_block_of_def Let_def)
  have a: "?terms = take 200 (sorted_list_of_set (strip ` {w \<in> set fw. w \<noteq> []}))"
    by (simp only: unique_terms_sorted_list)
  have b: "sorted ?terms"
    using unique_terms_sorted [of fw] by (rule sorted_wrt_take)
  have c: "distinct ?terms"
    using unique_terms_distinct [of fw] by (rule distinct_take)
  have d: "length ?terms \<le> 200"
    by simp
  have e: "\<exists>before after.
             req_content (vocab_request seed topic num_items difficulty (Some fw))
               = before @ (''- Do NOT include any of these previously generated words or phrases (avoid exact matches):''
                    @ [CHR 0x0A] @ ''  '' @ join '', '' ?terms @ [CHR 0x0A]
                    @ ''- Prefer new vocabulary rather than repeating the same items.'') @ after"
    if "?terms \<noteq> []"
    using that vocab_prompt_clause [of topic num_items difficulty "join '', '' ?terms" seed]
    by (simp only: vocab_request_def Let_def block request.simps if_False)
  have f: "\<exists>before after.
             req_content (phrasal_request seed num_items difficulty (Some fw))
               = before @ (''- Do NOT include any of these previously generated phrasal verbs (avoid exact matches):''
                    @ [CHR 0x0A] @ ''  '' @ join '', '' ?terms @ [CHR 0x0A]
                    @ ''- Prefer new phrasal verbs rather than repeating the same items.'') @ after"
    if "?terms \<noteq> []"
    using that phrasal_prompt_clause [of num_items difficulty "join '', '' ?terms" seed]
    by (simp only: phrasal_request_def Let_def block request.simps if_False)
  have g: "req_content (vocab_request seed topic num_items difficulty (Some fw))
             = req_content (vocab_request seed topic num_items difficulty None) \<and>
           req_content (phrasal_request seed num_items difficulty (Some fw))
             = req_content (phrasal_request seed num_items difficulty None)"
    if "?terms = []"
    using that
    by (simp add: vocab_request_def phrasal_request_def Let_def block forbidden_block_of_def)
  have h: "\<forall>t\<in>set ?terms. \<exists>a b. join '', '' ?terms = a @ t @ b"
    using join_contains by blast
  have i: "(\<forall>w\<in>set fw. w \<noteq> [] \<and> strip w = w) \<longrightarrow>
             ?terms = take 200 (sorted_list_of_set (set fw))"
    using stripped_image [of fw] by (simp add: unique_terms_sorted_list)
  have e': "?terms \<noteq> [] \<longrightarrow>
              (\<exists>before after.
                  req_content (vocab_request seed topic num_items difficulty (Some fw))
                    = before @ (''- Do NOT include any of these previously generated words or phrases (avoid exact matches):''
                    @ [CHR 0x0A] @ ''  '' @ join '', '' ?terms @ [CHR 0x0A]
                    @ ''- Prefer new vocabulary rather than repeating the same items.'') @ after) \<and>
              (\<exists>before after.
                  req_content (phrasal_request seed num_items difficulty (Some fw))
                    = before @ (''- Do NOT include any of these previously generated phrasal verbs (avoid exact matches):''
                    @ [CHR 0x0A] @ ''  '' @ join '', '' ?terms @ [CHR 0x0A]
                    @ ''- Prefer new phrasal verbs rather than repeating the same items.'') @ after)"
  proof (intro impI conjI)
    assume t: "?terms \<noteq> []"
    show "\<exists>before after.
            req_content (vocab_request seed topic num_items difficulty (Some fw))
              = before @ (''- Do NOT include any of these previously generated words or phrases (avoid exact matches):''
                    @ [CHR 0x0A] @ ''  '' @ join '', '' ?terms @ [CHR 0x0A]
                    @ ''- Prefer new vocabulary rather than repeating the same items.'') @ after"
      by (rule e [OF t])
    show "\<exists>before after.
            req_content (phrasal_request seed num_items difficulty (Some fw))
              = before @ (''- Do NOT include any of these previously generated phrasal verbs (avoid exact matches):''
                    @ [CHR 0x0A] @ ''  '' @ join '', '' ?terms @ [CHR 0x0A]
                    @ ''- Prefer new phrasal verbs rather than repeating the same items.'') @ after"
      by (rule f [OF t])
  qed
  have g': "?terms = [] \<longrightarrow>
              req_content (vocab_request seed topic num_items difficulty (Some fw))
                = req_content (vocab_request seed topic num_items difficulty None) \<and>
              req_content (phrasal_request seed num_items difficulty (Some fw))
                = req_content (phrasal_request seed num_items difficulty None)"
    using g by (rule impI)
  show ?thesis
    apply (rule exI [of _ ?terms])
    apply (intro conjI)
           apply (rule a)
          apply (rule b)
         apply (rule c)
        apply (rule d)
       apply (rule e')
      apply (rule g')
     apply (rule h)
    apply (rule i)
    done
qed

lemma sample_terms: "unique_terms sample_forbidden = [''checkup'', ''fever'', ''nurse'']"
  by code_simp

theorem forbidden_clause_rendering_witness:
  "sample_forbidden \<noteq> [] \<and>
   take 200 (sorted_list_of_set (strip ` {w \<in> set sample_forbidden. w \<noteq> []}))
     = [''checkup'', ''fever'', ''nurse''] \<and>
   join '', '' [''checkup'', ''fever'', ''nurse''] = ''checkup, fever, nurse'' \<and>
   (\<exists>before after.
       req_content (vocab_request 42 ''doctor visit'' 12 2 (Some sample_forbidden))
         = before @ (''- Do NOT include any of these previously generated words or phrases (avoid exact matches):''
              @ [CHR 0x0A] @ ''  '' @ join '', '' [''checkup'', ''fever'', ''nurse''] @ [CHR 0x0A]
              @ ''- Prefer new vocabulary rather than repeating the same items.'') @ after) \<and>
   (\<exists>before after.
       req_content (phrasal_request 42 10 2 (Some sample_forbidden))
         = before @ (''- Do NOT include any of these previously generated phrasal verbs (avoid exact matches):''
              @ [CHR 0x0A] @ ''  '' @ join '', '' [''checkup'', ''fever'', ''nurse''] @ [CHR 0x0A]
              @ ''- Prefer new phrasal verbs rather than repeating the same items.'') @ after)"
proof -
  have h: "sample_forbidden \<noteq> []"
    by (simp add: sample_forbidden_def)
  have t: "take 200 (sorted_list_of_set (strip ` {w \<in> set sample_forbidden. w \<noteq> []}))
             = [''checkup'', ''fever'', ''nurse'']"
    using sample_terms by (simp add: unique_terms_sorted_list)
  have j: "join '', '' [''checkup'', ''fever'', ''nurse''] = ''checkup, fever, nurse''"
    by simp
  from forbidden_clause_rendering [OF h, of 42 "''doctor visit''" 12 2]
  have a: "\<exists>before after.
       req_content (vocab_request 42 ''doctor visit'' 12 2 (Some sample_forbidden))
         = before @ (''- Do NOT include any of these previously generated words or phrases (avoid exact matches):''
                    @ [CHR 0x0A] @ ''  '' @ join '', '' [''checkup'', ''fever'', ''nurse''] @ [CHR 0x0A]
                    @ ''- Prefer new vocabulary rather than repeating the same items.'') @ after"
  proof (elim exE conjE)
    fix terms
    assume T: "terms = take 200 (sorted_list_of_set (strip ` {w \<in> set sample_forbidden. w \<noteq> []}))"
      and V: "terms \<noteq> [] \<longrightarrow>
              (\<exists>before after.
                  req_content (vocab_request 42 ''doctor visit'' 12 2 (Some sample_forbidden))
                    = before @ (''- Do NOT include any of these previously generated words or phrases (avoid exact matches):''
                    @ [CHR 0x0A] @ ''  '' @ join '', '' terms @ [CHR 0x0A]
                    @ ''- Prefer new vocabulary rather than repeating the same items.'') @ after) \<and>
              (\<exists>before after.
                  req_content (phrasal_request 42 12 2 (Some sample_forbidden))
                    = before @ (''- Do NOT include any of these previously generated phrasal verbs (avoid exact matches):''
                    @ [CHR 0x0A] @ ''  '' @ join '', '' terms @ [CHR 0x0A]
                    @ ''- Prefer new phrasal verbs rather than repeating the same items.'') @ after)"
    from T t have eq: "terms = [''checkup'', ''fever'', ''nurse'']"
      by (rule trans)
    then have ne: "terms \<noteq> []"
      by simp
    from V ne have both:
      "(\<exists>before after.
           req_content (vocab_request 42 ''doctor visit'' 12 2 (Some sample_forbidden))
             = before @ (''- Do NOT include any of these previously generated words or phrases (avoid exact matches):''
                    @ [CHR 0x0A] @ ''  '' @ join '', '' terms @ [CHR 0x0A]
                    @ ''- Prefer new vocabulary rather than repeating the same items.'') @ after) \<and>
       (\<exists>before after.
           req_content (phrasal_request 42 12 2 (Some sample_forbidden))
             = before @ (''- Do NOT include any of these previously generated phrasal verbs (avoid exact matches):''
                    @ [CHR 0x0A] @ ''  '' @ join '', '' terms @ [CHR 0x0A]
                    @ ''- Prefer new phrasal verbs rather than repeating the same items.'') @ after)"
      by (rule mp)
    from both show "\<exists>before after.
       req_content (vocab_request 42 ''doctor visit'' 12 2 (Some sample_forbidden))
         = before @ (''- Do NOT include any of these previously generated words or phrases (avoid exact matches):''
                    @ [CHR 0x0A] @ ''  '' @ join '', '' [''checkup'', ''fever'', ''nurse''] @ [CHR 0x0A]
                    @ ''- Prefer new vocabulary rather than repeating the same items.'') @ after"
      unfolding eq by (rule conjunct1)
  qed
  from forbidden_clause_rendering [OF h, of 42 "''doctor visit''" 10 2]
  have b: "\<exists>before after.
       req_content (phrasal_request 42 10 2 (Some sample_forbidden))
         = before @ (''- Do NOT include any of these previously generated phrasal verbs (avoid exact matches):''
                    @ [CHR 0x0A] @ ''  '' @ join '', '' [''checkup'', ''fever'', ''nurse''] @ [CHR 0x0A]
                    @ ''- Prefer new phrasal verbs rather than repeating the same items.'') @ after"
  proof (elim exE conjE)
    fix terms
    assume T: "terms = take 200 (sorted_list_of_set (strip ` {w \<in> set sample_forbidden. w \<noteq> []}))"
      and V: "terms \<noteq> [] \<longrightarrow>
              (\<exists>before after.
                  req_content (vocab_request 42 ''doctor visit'' 10 2 (Some sample_forbidden))
                    = before @ (''- Do NOT include any of these previously generated words or phrases (avoid exact matches):''
                    @ [CHR 0x0A] @ ''  '' @ join '', '' terms @ [CHR 0x0A]
                    @ ''- Prefer new vocabulary rather than repeating the same items.'') @ after) \<and>
              (\<exists>before after.
                  req_content (phrasal_request 42 10 2 (Some sample_forbidden))
                    = before @ (''- Do NOT include any of these previously generated phrasal verbs (avoid exact matches):''
                    @ [CHR 0x0A] @ ''  '' @ join '', '' terms @ [CHR 0x0A]
                    @ ''- Prefer new phrasal verbs rather than repeating the same items.'') @ after)"
    from T t have eq: "terms = [''checkup'', ''fever'', ''nurse'']"
      by (rule trans)
    then have ne: "terms \<noteq> []"
      by simp
    from V ne have both:
      "(\<exists>before after.
           req_content (vocab_request 42 ''doctor visit'' 10 2 (Some sample_forbidden))
             = before @ (''- Do NOT include any of these previously generated words or phrases (avoid exact matches):''
                    @ [CHR 0x0A] @ ''  '' @ join '', '' terms @ [CHR 0x0A]
                    @ ''- Prefer new vocabulary rather than repeating the same items.'') @ after) \<and>
       (\<exists>before after.
           req_content (phrasal_request 42 10 2 (Some sample_forbidden))
             = before @ (''- Do NOT include any of these previously generated phrasal verbs (avoid exact matches):''
                    @ [CHR 0x0A] @ ''  '' @ join '', '' terms @ [CHR 0x0A]
                    @ ''- Prefer new phrasal verbs rather than repeating the same items.'') @ after)"
      by (rule mp)
    from both show "\<exists>before after.
       req_content (phrasal_request 42 10 2 (Some sample_forbidden))
         = before @ (''- Do NOT include any of these previously generated phrasal verbs (avoid exact matches):''
                    @ [CHR 0x0A] @ ''  '' @ join '', '' [''checkup'', ''fever'', ''nurse''] @ [CHR 0x0A]
                    @ ''- Prefer new phrasal verbs rather than repeating the same items.'') @ after"
      unfolding eq by (rule conjunct2)
  qed
  show ?thesis
    apply (intro conjI)
        apply (rule h)
       apply (rule t)
      apply (rule j)
     apply (rule a)
    apply (rule b)
    done
qed

subsection \<open>The history and the pages\<close>

lemma item_word_text:
  assumes "map_of kvs ''word'' = Some (JStr w)"
  shows "item_word lower (JObj kvs) = Inr (lower (strip w))"
proof (cases "w = []")
  case True
  with assms show ?thesis by (simp add: item_word_def)
next
  case False
  with assms show ?thesis by (simp add: item_word_def)
qed

lemma readable_item_word:
  assumes "readable_word it"
  shows "\<exists>w. item_word lower it = Inr w"
proof -
  from assms obtain kvs where it: "it = JObj kvs"
    by (cases it) (auto simp: readable_word_def)
  show ?thesis
  proof (cases "map_of kvs ''word''")
    case None
    then show ?thesis by (simp add: it item_word_def)
  next
    case (Some v)
    with assms it have "\<not> truthy v \<or> (\<exists>s. v = JStr s)"
      by (cases v) (auto simp: readable_word_def)
    with Some show ?thesis
      by (auto simp: it item_word_def)
  qed
qed

lemma add_words_readable:
  assumes "\<forall>it\<in>set its. readable_word it"
  shows "\<exists>h'. add_words lower h its = (h', None)"
  using assms
proof (induction its arbitrary: h)
  case Nil
  then show ?case by simp
next
  case (Cons x its)
  from Cons.prems have "readable_word x" by simp
  from readable_item_word [OF this, of lower] obtain w where w: "item_word lower x = Inr w"
    by blast
  from Cons.prems have "\<forall>it\<in>set its. readable_word it" by simp
  from Cons.IH [OF this, of "if w \<noteq> [] then finsert w h else h"] w show ?case
    by simp
qed

lemma add_words_grows:
  "add_words lower h its = (h', err) \<Longrightarrow> w |\<in>| h \<Longrightarrow> w |\<in>| h'"
  by (induction its arbitrary: h) (auto split: sum.splits if_splits)

lemma add_words_contains:
  assumes "add_words lower h its = (h', None)" and "it \<in> set its"
    and "item_word lower it = Inr w" and "w \<noteq> []"
  shows "w |\<in>| h'"
  using assms
proof (induction its arbitrary: h)
  case Nil
  then show ?case by simp
next
  case (Cons x its)
  from Cons.prems(1) obtain wx where wx: "item_word lower x = Inr wx"
    "add_words lower (if wx \<noteq> [] then finsert wx h else h) its = (h', None)"
    by (auto split: sum.splits)
  show ?case
  proof (cases "it = x")
    case True
    with wx Cons.prems(3,4) have "add_words lower (finsert w h) its = (h', None)" by simp
    then show ?thesis by (rule add_words_grows) simp
  next
    case False
    with Cons.prems(2) have "it \<in> set its" by simp
    from Cons.IH [OF wx(2) this Cons.prems(3,4)] show ?thesis .
  qed
qed

lemma read_forbidden_set:
  "set (snd (read_forbidden h ctx)) = fset (forbidden_set h ctx)"
  by (simp add: read_forbidden_def get_forbidden_def forbidden_set_def Let_def)

lemma read_forbidden_again:
  "snd (read_forbidden (Some (fst (read_forbidden h ctx))) ctx) = snd (read_forbidden h ctx)"
  by (simp add: read_forbidden_def setdefault_history_def Let_def)

lemma read_forbidden_sorted:
  "sorted (snd (read_forbidden h ctx)) \<and> distinct (snd (read_forbidden h ctx))"
  by (simp add: read_forbidden_def get_forbidden_def Let_def sorted_list_of_fset.rep_eq)

text \<open>
  C4. For a batch in which every item is a dict whose word is absent, false or a
  string, the update of the history runs to its end, and then every word of the batch,
  stripped and lower-cased, that is not empty is in the forbidden list read for the
  context, which also keeps the words it had. Reading the forbidden list again, with no
  update in between, gives the same list, which is sorted and without repetition. Any
  other item ends the update with an exception, and the words of the items after it are
  not added.
\<close>

theorem absorbed_words_are_forbidden:
  assumes "\<forall>it\<in>set its. readable_word it"
  shows "\<exists>history'. absorb lower history ctx (JArr its) = (history', None) \<and>
           (\<forall>kvs w. JObj kvs \<in> set its \<and> map_of kvs ''word'' = Some (JStr w) \<and> lower (strip w) \<noteq> []
              \<longrightarrow> lower (strip w) \<in> set (snd (read_forbidden (Some history') ctx))) \<and>
           set (snd (read_forbidden (Some history) ctx))
             \<subseteq> set (snd (read_forbidden (Some history') ctx)) \<and>
           snd (read_forbidden (Some (fst (read_forbidden h c))) c) = snd (read_forbidden h c) \<and>
           sorted (snd (read_forbidden h c)) \<and> distinct (snd (read_forbidden h c))"
proof -
  from add_words_readable [OF assms, of lower "history_get history ctx"] obtain h' where
    h': "add_words lower (history_get history ctx) its = (h', None)"
    by blast
  let ?history' = "history(ctx \<mapsto> h')"
  have fin: "absorb lower history ctx (JArr its) = (?history', None)"
    using h' by (simp add: absorb_def)
  have new: "set (snd (read_forbidden (Some ?history') ctx)) = fset h'"
    by (simp add: read_forbidden_set forbidden_set_def setdefault_history_def history_get_def)
  have old: "set (snd (read_forbidden (Some history) ctx)) = fset (history_get history ctx)"
    by (simp add: read_forbidden_set forbidden_set_def setdefault_history_def)
  have a: "lower (strip w) \<in> set (snd (read_forbidden (Some ?history') ctx))"
    if "JObj kvs \<in> set its" "map_of kvs ''word'' = Some (JStr w)" "lower (strip w) \<noteq> []" for kvs w
    using add_words_contains [OF h' that(1) item_word_text [OF that(2)] that(3)] new
    by simp
  have b: "set (snd (read_forbidden (Some history) ctx))
             \<subseteq> set (snd (read_forbidden (Some ?history') ctx))"
    using add_words_grows [OF h'] new old by auto
  from fin a b read_forbidden_again [of h c] read_forbidden_sorted [of h c] show ?thesis
    by blast
qed

theorem absorbed_words_are_forbidden_witness:
  "list_all readable_word sample_batch \<and>
   snd (absorb lower_ascii (Map.empty :: string \<rightharpoonup> string fset) ''doctor visit'' (JArr sample_batch))
     = None \<and>
   lower_ascii (strip ''  Checkup '') = ''checkup'' \<and>
   ''checkup'' \<in> set (snd (read_forbidden
       (Some (fst (absorb lower_ascii (Map.empty :: string \<rightharpoonup> string fset) ''doctor visit''
                     (JArr sample_batch))))
       ''doctor visit'')) \<and>
   snd (read_forbidden
       (Some (fst (absorb lower_ascii (Map.empty :: string \<rightharpoonup> string fset) ''doctor visit''
                     (JArr sample_batch))))
       ''doctor visit'') = [''checkup'', ''nurse'']"
proof -
  let ?r = "absorb lower_ascii (Map.empty :: string \<rightharpoonup> string fset) ''doctor visit'' (JArr sample_batch)"
  have r: "list_all readable_word sample_batch"
    by (simp add: sample_batch_def readable_word_def)
  then have r': "\<forall>it\<in>set sample_batch. readable_word it"
    by (simp add: list_all_iff)
  have n: "lower_ascii (strip ''  Checkup '') = ''checkup''"
    by code_simp
  have m: "JObj [(''word'', JStr ''  Checkup ''), (''meaning_en'', JStr ''a medical examination'')]
             \<in> set sample_batch"
    by (simp add: sample_batch_def)
  have k: "map_of [(''word'', JStr ''  Checkup ''), (''meaning_en'', JStr ''a medical examination'')]
             ''word'' = Some (JStr ''  Checkup '')"
    by simp
  have l: "snd (read_forbidden (Some (fst ?r)) ''doctor visit'') = [''checkup'', ''nurse'']"
    by code_simp
  from absorbed_words_are_forbidden [OF r', of lower_ascii Map.empty "''doctor visit''" None "[]"]
  obtain history' where
    d: "?r = (history', None)" and
    w: "\<forall>kvs w. JObj kvs \<in> set sample_batch \<and> map_of kvs ''word'' = Some (JStr w) \<and>
                 lower_ascii (strip w) \<noteq> []
          \<longrightarrow> lower_ascii (strip w) \<in> set (snd (read_forbidden (Some history') ''doctor visit''))"
    by (elim exE conjE)
  from d have e: "snd ?r = None" and f: "fst ?r = history'"
    by simp_all
  from n have ne: "lower_ascii (strip ''  Checkup '') \<noteq> []"
    by simp
  from w [rule_format, OF conjI [OF m conjI [OF k ne]]]
  have "''checkup'' \<in> set (snd (read_forbidden (Some history') ''doctor visit''))"
    by (simp only: n)
  then have c: "''checkup'' \<in> set (snd (read_forbidden (Some (fst ?r)) ''doctor visit''))"
    by (simp only: f)
  from r e n c l show ?thesis
    by (intro conjI)
qed

theorem absorb_ends_early_counterexample:
  "snd (absorb lower_ascii (Map.empty :: string \<rightharpoonup> string fset) ''doctor visit'' (JArr mixed_batch))
     = Some AttributeError \<and>
   ''nurse'' \<notin> set (snd (read_forbidden
       (Some (fst (absorb lower_ascii (Map.empty :: string \<rightharpoonup> string fset) ''doctor visit''
                     (JArr mixed_batch))))
       ''doctor visit'')) \<and>
   (\<exists>sess'. page_generate_vocab mixed_env ClickGenerate ''doctor visit'' 12 2
               (sample_session, open_store) = ((sess', open_store), Some AttributeError) \<and>
            last_vocab_items sess' = Some (JArr mixed_batch) \<and>
            snd (read_forbidden (vocab_history sess') ''doctor visit'') = [''fever''])"
proof -
  let ?r = "absorb lower_ascii (Map.empty :: string \<rightharpoonup> string fset) ''doctor visit'' (JArr mixed_batch)"
  have a: "snd ?r = Some AttributeError"
    by code_simp
  have "snd (read_forbidden (Some (fst ?r)) ''doctor visit'') = []"
    by code_simp
  then have b: "''nurse'' \<notin> set (snd (read_forbidden (Some (fst ?r)) ''doctor visit''))"
    by simp
  have g: "snd (call_gpt_for_vocab (env_client mixed_env) (env_loads mixed_env) (env_seed mixed_env)
             ''doctor visit'' 12 2
             (Some (snd (read_forbidden (vocab_history sample_session)
                      (env_lower mixed_env (strip ''doctor visit''))))))
           = Inr (JArr mixed_batch)"
    by (simp add: call_gpt_for_vocab_def Let_def read_response_def mixed_env_def
          client_mixed_def loads_mixed_def strip_def lstrip_def rstrip_def white_space_def)
  have t: "env_lower mixed_env (strip ''doctor visit'') = ''doctor visit''"
    by code_simp
  have ab: "absorb lower_ascii [''doctor visit'' \<mapsto> {|''fever''|}] ''doctor visit'' (JArr mixed_batch)
              = ([''doctor visit'' \<mapsto> {|''fever''|}], Some AttributeError)"
    by (simp add: absorb_def mixed_batch_def item_word_def history_get_def)
  let ?sess' = "sample_session\<lparr>last_vocab_items := Some (JArr mixed_batch),
                   last_vocab_topic := Some ''doctor visit'', last_vocab_difficulty := Some 2\<rparr>"
  have p: "page_generate_vocab mixed_env ClickGenerate ''doctor visit'' 12 2
             (sample_session, open_store) = ((?sess', open_store), Some AttributeError)"
    using g t ab
    by (simp add: page_generate_vocab_def Let_def read_forbidden_def setdefault_history_def
          sample_session_def mixed_env_def)
  have f: "snd (read_forbidden (vocab_history ?sess') ''doctor visit'') = [''fever'']"
    by (simp add: read_forbidden_def setdefault_history_def get_forbidden_def history_get_def
          sample_session_def Let_def sorted_list_of_fset.rep_eq)
  have c: "\<exists>sess'. page_generate_vocab mixed_env ClickGenerate ''doctor visit'' 12 2
               (sample_session, open_store) = ((sess', open_store), Some AttributeError) \<and>
            last_vocab_items sess' = Some (JArr mixed_batch) \<and>
            snd (read_forbidden (vocab_history sess') ''doctor visit'') = [''fever'']"
    using p f by (intro exI [of _ ?sess']) simp
  from a b c show ?thesis
    by (intro conjI)
qed

lemma forbidden_set_setdefault [simp]:
  "forbidden_set (Some (setdefault_history h)) ctx = forbidden_set h ctx"
  by (simp add: forbidden_set_def setdefault_history_def)

text \<open>
  C1. A run of a generation page with the generate button pressed, in which the call
  of the model or the decoding of its answer raises: the page reports the error and
  returns, the store is the store as it was, and every context has the forbidden set
  it had, in both histories. This holds for the topic page and for the phrasal page.
\<close>

theorem failed_generation_changes_nothing:
  "(snd (call_gpt_for_vocab (env_client env) (env_loads env) (env_seed env) topic num_items difficulty
           (Some (snd (read_forbidden (vocab_history sess) (env_lower env (strip topic)))))) = Inl e \<longrightarrow>
      (\<exists>sess'. page_generate_vocab env ClickGenerate topic num_items difficulty (sess, st)
                  = ((sess', st), None) \<and>
               (\<forall>ctx. forbidden_set (vocab_history sess') ctx = forbidden_set (vocab_history sess) ctx) \<and>
               (\<forall>ctx. forbidden_set (phrasal_history sess') ctx
                        = forbidden_set (phrasal_history sess) ctx))) \<and>
   (snd (call_gpt_for_phrasal_verbs (env_client env) (env_loads env) (env_seed env) num_items difficulty
           (Some (snd (read_forbidden (phrasal_history sess) difficulty)))) = Inl e \<longrightarrow>
      (\<exists>sess'. page_generate_phrasal_verbs env ClickGenerate num_items difficulty (sess, st)
                  = ((sess', st), None) \<and>
               (\<forall>ctx. forbidden_set (vocab_history sess') ctx = forbidden_set (vocab_history sess) ctx) \<and>
               (\<forall>ctx. forbidden_set (phrasal_history sess') ctx
                        = forbidden_set (phrasal_history sess) ctx)))"
proof (intro conjI impI)
  assume f: "snd (call_gpt_for_vocab (env_client env) (env_loads env) (env_seed env) topic num_items
                    difficulty (Some (snd (read_forbidden (vocab_history sess) (env_lower env (strip topic))))))
               = Inl e"
  let ?sess' = "sess\<lparr>vocab_history := Some (setdefault_history (vocab_history sess))\<rparr>"
  have "page_generate_vocab env ClickGenerate topic num_items difficulty (sess, st) = ((?sess', st), None)"
    using f by (simp add: page_generate_vocab_def Let_def read_forbidden_def)
  then show "\<exists>sess'. page_generate_vocab env ClickGenerate topic num_items difficulty (sess, st)
                       = ((sess', st), None) \<and>
               (\<forall>ctx. forbidden_set (vocab_history sess') ctx = forbidden_set (vocab_history sess) ctx) \<and>
               (\<forall>ctx. forbidden_set (phrasal_history sess') ctx
                        = forbidden_set (phrasal_history sess) ctx)"
    by (intro exI [of _ ?sess']) simp
next
  assume f: "snd (call_gpt_for_phrasal_verbs (env_client env) (env_loads env) (env_seed env) num_items
                    difficulty (Some (snd (read_forbidden (phrasal_history sess) difficulty))))
               = Inl e"
  let ?sess' = "sess\<lparr>phrasal_history := Some (setdefault_history (phrasal_history sess))\<rparr>"
  have "page_generate_phrasal_verbs env ClickGenerate num_items difficulty (sess, st)
          = ((?sess', st), None)"
    using f by (simp add: page_generate_phrasal_verbs_def Let_def read_forbidden_def)
  then show "\<exists>sess'. page_generate_phrasal_verbs env ClickGenerate num_items difficulty (sess, st)
                       = ((sess', st), None) \<and>
               (\<forall>ctx. forbidden_set (vocab_history sess') ctx = forbidden_set (vocab_history sess) ctx) \<and>
               (\<forall>ctx. forbidden_set (phrasal_history sess') ctx
                        = forbidden_set (phrasal_history sess) ctx)"
    by (intro exI [of _ ?sess']) simp
qed

theorem failed_generation_changes_nothing_witness:
  "snd (call_gpt_for_vocab (env_client failing_env) (env_loads failing_env) (env_seed failing_env)
          ''Doctor Visit '' 12 2
          (Some (snd (read_forbidden (vocab_history sample_session) (env_lower failing_env (strip ''Doctor Visit ''))))))
     = Inl JSONDecodeError \<and>
   (\<exists>sess'. page_generate_vocab failing_env ClickGenerate ''Doctor Visit '' 12 2
               (sample_session, open_store) = ((sess', open_store), None) \<and>
            forbidden_set (vocab_history sess') ''doctor visit'' = {|''fever''|}) \<and>
   snd (call_gpt_for_phrasal_verbs (env_client failing_env) (env_loads failing_env)
          (env_seed failing_env) 10 2
          (Some (snd (read_forbidden (phrasal_history sample_session) 2))))
     = Inl JSONDecodeError \<and>
   (\<exists>sess'. page_generate_phrasal_verbs failing_env ClickGenerate 10 2
               (sample_session, open_store) = ((sess', open_store), None) \<and>
            forbidden_set (phrasal_history sess') 2 = {|''give up''|})"
proof -
  have v: "snd (call_gpt_for_vocab (env_client failing_env) (env_loads failing_env)
             (env_seed failing_env) ''Doctor Visit '' 12 2
             (Some (snd (read_forbidden (vocab_history sample_session) (env_lower failing_env (strip ''Doctor Visit ''))))))
           = Inl JSONDecodeError"
    by (simp add: call_gpt_for_vocab_def Let_def read_response_def failing_env_def
          client_not_json_def loads_on_samples_def strip_def lstrip_def rstrip_def white_space_def)
  have p: "snd (call_gpt_for_phrasal_verbs (env_client failing_env) (env_loads failing_env)
             (env_seed failing_env) 10 2
             (Some (snd (read_forbidden (phrasal_history sample_session) 2))))
           = Inl JSONDecodeError"
    by (simp add: call_gpt_for_phrasal_verbs_def Let_def read_response_def failing_env_def
          client_not_json_def loads_on_samples_def strip_def lstrip_def rstrip_def white_space_def)
  have sv: "forbidden_set (vocab_history sample_session) ''doctor visit'' = {|''fever''|}"
    by (simp add: forbidden_set_def setdefault_history_def history_get_def sample_session_def)
  have sp: "forbidden_set (phrasal_history sample_session) 2 = {|''give up''|}"
    by (simp add: forbidden_set_def setdefault_history_def history_get_def sample_session_def)
  note inst = failed_generation_changes_nothing
               [of failing_env "''Doctor Visit ''" 12 2 sample_session JSONDecodeError open_store]
  note inst' = failed_generation_changes_nothing
               [of failing_env "''Doctor Visit ''" 10 2 sample_session JSONDecodeError open_store]
  from inst v sv have a:
    "\<exists>sess'. page_generate_vocab failing_env ClickGenerate ''Doctor Visit '' 12 2
               (sample_session, open_store) = ((sess', open_store), None) \<and>
            forbidden_set (vocab_history sess') ''doctor visit'' = {|''fever''|}"
    by (metis (no_types, lifting))
  from inst' p sp have b:
    "\<exists>sess'. page_generate_phrasal_verbs failing_env ClickGenerate 10 2
               (sample_session, open_store) = ((sess', open_store), None) \<and>
            forbidden_set (phrasal_history sess') 2 = {|''give up''|}"
    by (metis (no_types, lifting))
  from v a p b show ?thesis
    by (intro conjI)
qed

end
